theory Spec2Isabelle
  imports Complex_Main "HOL-Library.Word"
begin

section \<open>Face enrollment wizard (app.py)\<close>

text \<open>
  The program is one Streamlit script. Every user interaction runs the script from the top
  against the session state, which survives between runs. The model has three layers:
  \<^item> a store of Python objects (PIL images and numpy arrays), because
    \<open>overlay_face_outline\<close> draws in place on an array and the claims about it depend on
    which object is written;
  \<^item> the three helper functions \<open>validate_single_face\<close>, \<open>overlay_face_outline\<close> and
    \<open>build_zip\<close>;
  \<^item> one run of the script as a function of the store, the session state and the values
    the widgets return in that run.

  What OpenCV, PIL, the json module and zipfile compute is not code of this repository:
  the face detector, the grey-level formula, the rasteriser of \<open>cv2.ellipse\<close>, the image
  decoder, the JPEG encoder and \<open>json.dumps\<close> are parameters, collected in the record
  \<open>lib\<close>. Their raises are values of \<open>py_error\<close>.
\<close>

subsection \<open>Errors, pixels and objects\<close>

datatype py_error =
    IndexError
  | AttributeError
  | TypeError
  | ValueError
  | CvError
  | OSError
  | UnidentifiedImageError
  | StreamlitAPIException

type_synonym pixel = "8 word \<times> 8 word \<times> 8 word"

type_synonym bytes = "8 word list"

text \<open>A PIL image in mode RGB: \<open>size\<close> is (width, height), the pixels are row-major.\<close>

record pil_image =
  size_w :: nat
  size_h :: nat
  px :: "pixel list"

text \<open>A numpy array of dtype uint8 and shape \<open>(h, w, 3)\<close>.\<close>

record ndarray =
  shape_h :: nat
  shape_w :: nat
  data :: "pixel list"

text \<open>A numpy array of dtype uint8 and shape \<open>(h, w)\<close>: a grey-level image.\<close>

record gray_array =
  gshape_h :: nat
  gshape_w :: nat
  gdata :: "8 word list"

datatype obj = Image pil_image | Array ndarray | GrayArray gray_array

type_synonym addr = nat

type_synonym heap = "obj list"

definition alloc :: "heap \<Rightarrow> obj \<Rightarrow> addr \<times> heap" where
  "alloc hp ob = (length hp, hp @ [ob])"

definition deref :: "heap \<Rightarrow> addr \<Rightarrow> obj option" where
  "deref hp a = (if a < length hp then Some (hp ! a) else None)"

text \<open>A detected region \<open>(x, y, w, h)\<close>.\<close>

type_synonym rect = "int \<times> int \<times> int \<times> int"

text \<open>The arguments of one call of \<open>cv2.ellipse\<close>.\<close>

record ellipse_call =
  center :: "int \<times> int"
  axes :: "int \<times> int"
  angle :: int
  startAngle :: int
  endAngle :: int
  color :: "8 word \<times> 8 word \<times> 8 word"
  thickness :: int

text \<open>A JSON-serialisable Python value, as far as the metadata record needs it.\<close>

datatype jval = JStr string | JList "jval list" | JDict "(string \<times> jval) list"

subsection \<open>The libraries\<close>

record lib =
  gray_of :: "pixel \<Rightarrow> 8 word"
  detectMultiScale :: "gray_array \<Rightarrow> real \<Rightarrow> int \<Rightarrow> py_error + rect list"
  on_stroke :: "ellipse_call \<Rightarrow> nat \<Rightarrow> nat \<Rightarrow> bool"
  image_open :: "bytes \<Rightarrow> py_error + pil_image"
  save_jpeg :: "pil_image \<Rightarrow> py_error + bytes"
  json_dumps :: "jval \<Rightarrow> nat \<Rightarrow> string"

text \<open>\<open>np.array(image_pil)\<close>: a new array holding a copy of the image's pixels.\<close>

definition np_array :: "heap \<Rightarrow> addr \<Rightarrow> (py_error + addr) \<times> heap" where
  "np_array hp a =
     (case deref hp a of
        Some (Image im) \<Rightarrow>
          (let (a', hp') = alloc hp (Array \<lparr>shape_h = size_h im, shape_w = size_w im, data = px im\<rparr>)
           in (Inr a', hp'))
      | _ \<Rightarrow> (Inl TypeError, hp))"

datatype color_code = COLOR_RGB2GRAY | COLOR_RGB2BGR | COLOR_BGR2RGB

fun swap_rb :: "pixel \<Rightarrow> pixel" where
  "swap_rb (c0, c1, c2) = (c2, c1, c0)"

text \<open>
  \<open>cv2.cvtColor(src, code)\<close>: raises \<open>cv2.error\<close> on an empty array, otherwise returns a
  new array of the same height and width. \<open>COLOR_RGB2BGR\<close> and \<open>COLOR_BGR2RGB\<close> both
  exchange the first and the third channel.
\<close>

definition cvtColor :: "lib \<Rightarrow> heap \<Rightarrow> addr \<Rightarrow> color_code \<Rightarrow> (py_error + addr) \<times> heap" where
  "cvtColor L hp a code =
     (case deref hp a of
        Some (Array arr) \<Rightarrow>
          (if shape_h arr = 0 \<or> shape_w arr = 0 then (Inl CvError, hp)
           else
             (let ob = (case code of
                          COLOR_RGB2GRAY \<Rightarrow>
                            GrayArray \<lparr>gshape_h = shape_h arr, gshape_w = shape_w arr,
                                       gdata = map (gray_of L) (data arr)\<rparr>
                        | COLOR_RGB2BGR \<Rightarrow> Array (arr\<lparr>data := map swap_rb (data arr)\<rparr>)
                        | COLOR_BGR2RGB \<Rightarrow> Array (arr\<lparr>data := map swap_rb (data arr)\<rparr>));
                  (a', hp') = alloc hp ob
              in (Inr a', hp')))
      | _ \<Rightarrow> (Inl CvError, hp))"

subsection \<open>validate_single_face\<close>

definition validate_single_face :: "lib \<Rightarrow> heap \<Rightarrow> addr \<Rightarrow> (py_error + bool) \<times> heap" where
  "validate_single_face L hp image_pil =
     (case np_array hp image_pil of
        (Inl e, hp1) \<Rightarrow> (Inl e, hp1)
      | (Inr arr, hp1) \<Rightarrow>
          (case cvtColor L hp1 arr COLOR_RGB2GRAY of
             (Inl e, hp2) \<Rightarrow> (Inl e, hp2)
           | (Inr gray, hp2) \<Rightarrow>
               (case deref hp2 gray of
                  Some (GrayArray g) \<Rightarrow>
                    (case detectMultiScale L g 1.2 5 of
                       Inl e \<Rightarrow> (Inl e, hp2)
                     | Inr faces \<Rightarrow> (Inr (length faces = 1), hp2))
                | _ \<Rightarrow> (Inl TypeError, hp2))))"


subsection \<open>Double-precision arithmetic on non-negative numbers\<close>

text \<open>
  \<open>w * 0.25\<close> and \<open>h * 0.35\<close> are products of Python floats (IEEE 754 binary64),
  and \<open>int\<close> truncates them. A non-negative finite double is a pair \<open>(m, e)\<close> standing
  for \<open>m * 2^e\<close>. Every operation rounds its exact result to 53 significant bits, ties
  to even. Overflow to infinity is out of range for array dimensions and not modelled.
\<close>

type_synonym dbl = "nat \<times> int"

fun bitlen :: "nat \<Rightarrow> nat" where
  "bitlen n = (if n = 0 then 0 else Suc (bitlen (n div 2)))"

declare bitlen.simps [simp del]

definition round53 :: "dbl \<Rightarrow> dbl" where
  "round53 d =
     (case d of (m, e) \<Rightarrow>
        if bitlen m \<le> 53 then (m, e)
        else
          (let s = bitlen m - 53;
               q = m div 2 ^ s;
               r = m mod 2 ^ s;
               q' = (if 2 * r > 2 ^ s \<or> (2 * r = 2 ^ s \<and> odd q) then q + 1 else q)
           in (q', e + int s)))"

text \<open>\<open>float(n)\<close> for a Python int \<open>n \<ge> 0\<close>.\<close>

definition float_of_int :: "nat \<Rightarrow> dbl" where
  "float_of_int n = round53 (n, 0)"

definition float_mul :: "dbl \<Rightarrow> dbl \<Rightarrow> dbl" where
  "float_mul x y = (case x of (m1, e1) \<Rightarrow> case y of (m2, e2) \<Rightarrow> round53 (m1 * m2, e1 + e2))"

text \<open>\<open>int(x)\<close> for a float \<open>x \<ge> 0\<close>: the integer part.\<close>

definition py_int :: "dbl \<Rightarrow> int" where
  "py_int d = (case d of (m, e) \<Rightarrow>
     if 0 \<le> e then int (m * 2 ^ nat e) else int (m div 2 ^ nat (- e)))"

text \<open>The literals: \<open>0.25 = 2^-2\<close>, and \<open>0.35\<close> is the double \<open>0x1.6666666666666p-2\<close>.\<close>

definition lit_0_25 :: dbl where
  "lit_0_25 = (1, - 2)"

definition lit_0_35 :: dbl where
  "lit_0_35 = (3152519739159347, - 53)"

subsection \<open>overlay_face_outline\<close>

text \<open>The arguments the source passes to \<open>cv2.ellipse\<close> for an array of shape \<open>(h, w, 3)\<close>.\<close>

definition ellipse_args :: "nat \<Rightarrow> nat \<Rightarrow> ellipse_call" where
  "ellipse_args w h =
     \<lparr>center = (int (w div 2), int (h div 2)),
      axes = (py_int (float_mul (float_of_int w) lit_0_25),
              py_int (float_mul (float_of_int h) lit_0_35)),
      angle = 0,
      startAngle = 0,
      endAngle = 360,
      color = (0, 255, 0),
      thickness = 2\<rparr>"

text \<open>
  \<open>cv2.ellipse(img, ...)\<close> writes the colour into \<open>img\<close> itself, at the pixels the
  rasteriser selects. Pixel \<open>i\<close> of the row-major data is column \<open>i mod w\<close>, row
  \<open>i div w\<close>.
\<close>

definition paint :: "lib \<Rightarrow> ellipse_call \<Rightarrow> nat \<Rightarrow> pixel list \<Rightarrow> pixel list" where
  "paint L c w ps =
     map (\<lambda>i. if on_stroke L c (i mod w) (i div w) then color c else ps ! i) [0..<length ps]"

definition cv2_ellipse :: "lib \<Rightarrow> heap \<Rightarrow> addr \<Rightarrow> ellipse_call \<Rightarrow> (py_error + unit) \<times> heap" where
  "cv2_ellipse L hp a c =
     (case deref hp a of
        Some (Array arr) \<Rightarrow>
          (Inr (), hp[a := Array (arr\<lparr>data := paint L c (shape_w arr) (data arr)\<rparr>)])
      | _ \<Rightarrow> (Inl CvError, hp))"

text \<open>\<open>Image.fromarray(arr)\<close>: a new PIL image of the array's width and height.\<close>

definition Image_fromarray :: "heap \<Rightarrow> addr \<Rightarrow> (py_error + addr) \<times> heap" where
  "Image_fromarray hp a =
     (case deref hp a of
        Some (Array arr) \<Rightarrow>
          (let (a', hp') = alloc hp (Image \<lparr>size_w = shape_w arr, size_h = shape_h arr, px = data arr\<rparr>)
           in (Inr a', hp'))
      | _ \<Rightarrow> (Inl TypeError, hp))"

definition overlay_face_outline :: "lib \<Rightarrow> heap \<Rightarrow> addr \<Rightarrow> (py_error + addr) \<times> heap" where
  "overlay_face_outline L hp image_pil =
     (case np_array hp image_pil of
        (Inl e, hp1) \<Rightarrow> (Inl e, hp1)
      | (Inr rgb, hp1) \<Rightarrow>
          (case cvtColor L hp1 rgb COLOR_RGB2BGR of
             (Inl e, hp2) \<Rightarrow> (Inl e, hp2)
           | (Inr img, hp2) \<Rightarrow>
               (case deref hp2 img of
                  Some (Array arr) \<Rightarrow>
                    (let h = shape_h arr; w = shape_w arr
                     in (case cv2_ellipse L hp2 img (ellipse_args w h) of
                           (Inl e, hp3) \<Rightarrow> (Inl e, hp3)
                         | (Inr u, hp3) \<Rightarrow>
                             (case cvtColor L hp3 img COLOR_BGR2RGB of
                                (Inl e, hp4) \<Rightarrow> (Inl e, hp4)
                              | (Inr out, hp4) \<Rightarrow> Image_fromarray hp4 out)))
                | _ \<Rightarrow> (Inl ValueError, hp2))))"

subsection \<open>build_zip\<close>

text \<open>
  The archive is the list of entries \<open>writestr\<close> has appended, each a name and its
  content before compression. A Python dict is an association list in insertion order.
\<close>

type_synonym entry = "string \<times> bytes"

definition str_encode :: "string \<Rightarrow> bytes" where
  "str_encode s = map of_char s"

text \<open>\<open>img.save(img_bytes, format="JPEG")\<close> followed by \<open>img_bytes.getvalue()\<close>.\<close>

definition img_save_jpeg :: "lib \<Rightarrow> heap \<Rightarrow> addr \<Rightarrow> py_error + bytes" where
  "img_save_jpeg L hp a =
     (case deref hp a of
        Some (Image im) \<Rightarrow> save_jpeg L im
      | _ \<Rightarrow> Inl AttributeError)"

text \<open>The loop over \<open>images.items()\<close>, with the entries written so far.\<close>

fun write_images :: "lib \<Rightarrow> heap \<Rightarrow> (string \<times> addr) list \<Rightarrow> entry list \<Rightarrow> py_error + entry list" where
  "write_images L hp [] zipf = Inr zipf"
| "write_images L hp ((pose, img) # items) zipf =
     (case img_save_jpeg L hp img of
        Inl e \<Rightarrow> Inl e
      | Inr img_bytes \<Rightarrow> write_images L hp items (zipf @ [(pose @ ''.jpg'', img_bytes)]))"

definition build_zip :: "lib \<Rightarrow> heap \<Rightarrow> (string \<times> addr) list \<Rightarrow> jval \<Rightarrow> py_error + entry list" where
  "build_zip L hp images metadata =
     (case write_images L hp images [] of
        Inl e \<Rightarrow> Inl e
      | Inr zipf \<Rightarrow> Inr (zipf @ [(''metadata.json'', str_encode (json_dumps L metadata 2))]))"


subsection \<open>Configuration and session state\<close>

definition POSES :: "(string \<times> string) list" where
  "POSES =
     [(''front'', ''Look straight at the camera''),
      (''left'', ''Turn your head slightly LEFT''),
      (''right'', ''Turn your head slightly RIGHT''),
      (''up'', ''Tilt your head UP''),
      (''down'', ''Tilt your head DOWN'')]"

text \<open>
  \<open>POSES[step]\<close>: subscription of a Python list. Positions \<open>0 .. len - 1\<close> are read
  directly, positions \<open>-len .. -1\<close> are read from the end, anything else raises.
\<close>

definition py_index :: "'a list \<Rightarrow> int \<Rightarrow> py_error + 'a" where
  "py_index xs i =
     (if 0 \<le> i \<and> i < int (length xs) then Inr (xs ! nat i)
      else if i < 0 \<and> - int (length xs) \<le> i then Inr (xs ! nat (int (length xs) + i))
      else Inl IndexError)"

text \<open>\<open>d[k] = v\<close> on a Python dict: an existing key keeps its place, a new key goes last.\<close>

fun dict_set :: "('k \<times> 'v) list \<Rightarrow> 'k \<Rightarrow> 'v \<Rightarrow> ('k \<times> 'v) list" where
  "dict_set [] k v = [(k, v)]"
| "dict_set ((k', v') # kvs) k v =
     (if k' = k then (k', v) # kvs else (k', v') # dict_set kvs k v)"

datatype page_name = Intro | Capture | Final

text \<open>
  \<open>st.session_state\<close>: every key may be absent. A read of an absent key raises
  \<open>AttributeError\<close>. The images are references to PIL images in the store.
\<close>

record session =
  page :: "page_name option"
  step :: "int option"
  images :: "(string \<times> addr) list option"
  name :: "string option"
  emp_id :: "string option"

definition empty_session :: session where
  "empty_session = \<lparr>page = None, step = None, images = None, name = None, emp_id = None\<rparr>"

text \<open>\<open>datetime.utcnow()\<close> and its \<open>isoformat()\<close>.\<close>

record datetime =
  year :: nat
  month :: nat
  day :: nat
  hour :: nat
  minute :: nat
  second :: nat
  microsecond :: nat

definition digit :: "nat \<Rightarrow> char" where
  "digit n = ''0123456789'' ! (n mod 10)"

text \<open>\<open>"%0kd" % n\<close> for \<open>n < 10^k\<close>.\<close>

fun zpad :: "nat \<Rightarrow> nat \<Rightarrow> string" where
  "zpad 0 n = []"
| "zpad (Suc k) n = zpad k (n div 10) @ [digit n]"

definition isoformat :: "datetime \<Rightarrow> string" where
  "isoformat d =
     zpad 4 (year d) @ ''-'' @ zpad 2 (month d) @ ''-'' @ zpad 2 (day d) @ ''T'' @
     zpad 2 (hour d) @ '':'' @ zpad 2 (minute d) @ '':'' @ zpad 2 (second d) @
     (if microsecond d = 0 then [] else ''.'' @ zpad 6 (microsecond d))"

text \<open>What the widgets return in one run of the script.\<close>

record widgets =
  text_name :: string
  text_emp_id :: string
  consent_box :: bool
  btn_start :: bool
  camera :: "bytes option"
  btn_retake :: bool
  btn_accept :: bool
  utcnow :: datetime

text \<open>What a run shows, as far as the claims read it.\<close>

datatype elem =
    Error string
  | Info string
  | Success string
  | Preview addr string
  | Download "entry list" string string

text \<open>
  How a run ends: \<open>st.stop()\<close>, \<open>st.rerun()\<close>, an uncaught exception, or the end of the
  script.
\<close>

datatype control = Stop | Rerun | Raised py_error | Finished

type_synonym world = "heap \<times> session"

type_synonym outcome = "world \<times> elem list \<times> control"

subsection \<open>Page state (lines 67 to 74)\<close>

definition init_state :: "session \<Rightarrow> session" where
  "init_state s =
     (let s1 = (if page s = None then s\<lparr>page := Some Intro\<rparr> else s);
          s2 = (if step s1 = None then s1\<lparr>step := Some 0\<rparr> else s1);
          s3 = (if images s2 = None then s2\<lparr>images := Some []\<rparr> else s2)
      in s3)"

subsection \<open>Page 1: intro\<close>

definition intro_page :: "heap \<Rightarrow> session \<Rightarrow> widgets \<Rightarrow> outcome" where
  "intro_page hp s W =
     (if btn_start W then
        (if \<not> (text_name W \<noteq> [] \<and> text_emp_id W \<noteq> [] \<and> consent_box W) then
           ((hp, s), [Error ''Please complete all fields and provide consent.''], Stop)
         else
           (let s1 = s\<lparr>name := Some (text_name W)\<rparr>;
                s2 = s1\<lparr>emp_id := Some (text_emp_id W)\<rparr>;
                s3 = s2\<lparr>page := Some Capture\<rparr>
            in ((hp, s3), [], Rerun)))
      else ((hp, s), [], Stop))"

subsection \<open>Page 2: capture\<close>

text \<open>\<open>Image.open(photo)\<close>: a new PIL image, or the decoder's exception.\<close>

definition Image_open :: "lib \<Rightarrow> heap \<Rightarrow> bytes \<Rightarrow> (py_error + addr) \<times> heap" where
  "Image_open L hp photo =
     (case image_open L photo of
        Inl e \<Rightarrow> (Inl e, hp)
      | Inr im \<Rightarrow> (let (a, hp') = alloc hp (Image im) in (Inr a, hp')))"

text \<open>The body of \<open>if st.button("Accept & Continue")\<close>.\<close>

definition accept :: "session \<Rightarrow> string \<Rightarrow> addr \<Rightarrow> py_error + session" where
  "accept s pose_name img =
     (case images s of
        None \<Rightarrow> Inl AttributeError
      | Some imgs \<Rightarrow>
          (let s1 = s\<lparr>images := Some (dict_set imgs pose_name img)\<rparr>
           in case step s1 of
                None \<Rightarrow> Inl AttributeError
              | Some n \<Rightarrow>
                  (let s2 = s1\<lparr>step := Some (n + 1)\<rparr>
                   in case step s2 of
                        None \<Rightarrow> Inl AttributeError
                      | Some n' \<Rightarrow>
                          Inr (if n' \<ge> int (length POSES) then s2\<lparr>page := Some Final\<rparr> else s2))))"

text \<open>
  \<open>st.progress(v)\<close> raises unless \<open>0.0 \<le> v \<le> 1.0\<close>; here \<open>v = step / len(POSES)\<close>.
\<close>

definition capture_page :: "lib \<Rightarrow> heap \<Rightarrow> session \<Rightarrow> widgets \<Rightarrow> outcome" where
  "capture_page L hp s W =
     (case step s of
        None \<Rightarrow> ((hp, s), [], Raised AttributeError)
      | Some stp \<Rightarrow>
          if stp < 0 \<or> int (length POSES) < stp then ((hp, s), [], Raised StreamlitAPIException)
          else
            (case py_index POSES stp of
               Inl e \<Rightarrow> ((hp, s), [], Raised e)
             | Inr (pose_name, instruction) \<Rightarrow>
                 (case camera W of
                    None \<Rightarrow> ((hp, s), [Info instruction], Stop)
                  | Some photo \<Rightarrow>
                      (case Image_open L hp photo of
                         (Inl e, hp1) \<Rightarrow> ((hp1, s), [Info instruction], Raised e)
                       | (Inr img, hp1) \<Rightarrow>
                           (case validate_single_face L hp1 img of
                              (Inl e, hp2) \<Rightarrow> ((hp2, s), [Info instruction], Raised e)
                            | (Inr ok, hp2) \<Rightarrow>
                                if \<not> ok then
                                  ((hp2, s),
                                   [Info instruction,
                                    Error ''Exactly one face must be visible. Please retake.''],
                                   Stop)
                                else
                                  (case overlay_face_outline L hp2 img of
                                     (Inl e, hp3) \<Rightarrow> ((hp3, s), [Info instruction], Raised e)
                                   | (Inr preview, hp3) \<Rightarrow>
                                       (let shown = [Info instruction, Preview preview ''Check alignment'']
                                        in if btn_retake W then ((hp3, s), shown, Rerun)
                                           else if btn_accept W then
                                             (case accept s pose_name img of
                                                Inl e \<Rightarrow> ((hp3, s), shown, Raised e)
                                              | Inr s' \<Rightarrow> ((hp3, s'), shown, Rerun))
                                           else ((hp3, s), shown, Stop))))))))"

subsection \<open>Page 3: final\<close>

definition build_metadata :: "session \<Rightarrow> datetime \<Rightarrow> py_error + (string \<times> jval) list" where
  "build_metadata s now =
     (case emp_id s of
        None \<Rightarrow> Inl AttributeError
      | Some e \<Rightarrow>
          (case name s of
             None \<Rightarrow> Inl AttributeError
           | Some n \<Rightarrow>
               (case images s of
                  None \<Rightarrow> Inl AttributeError
                | Some imgs \<Rightarrow>
                    Inr [(''employee_id'', JStr e),
                         (''name'', JStr n),
                         (''poses'', JList (map (\<lambda>kv. JStr (fst kv)) imgs)),
                         (''timestamp'', JStr (isoformat now)),
                         (''source'', JStr ''streamlit-frontend-preview'')])))"

definition final_page :: "lib \<Rightarrow> heap \<Rightarrow> session \<Rightarrow> widgets \<Rightarrow> outcome" where
  "final_page L hp s W =
     (let shown = [Success ''Enrollment complete!'']
      in case build_metadata s (utcnow W) of
           Inl e \<Rightarrow> ((hp, s), shown, Raised e)
         | Inr metadata \<Rightarrow>
             (case images s of
                None \<Rightarrow> ((hp, s), shown, Raised AttributeError)
              | Some imgs \<Rightarrow>
                  (case build_zip L hp imgs (JDict metadata) of
                     Inl e \<Rightarrow> ((hp, s), shown, Raised e)
                   | Inr zip_buffer \<Rightarrow>
                       (case (emp_id s, name s) of
                          (Some e, Some n) \<Rightarrow>
                            ((hp, s),
                             shown @
                             [Download zip_buffer (e @ ''_'' @ n @ ''.zip'') ''application/zip'',
                              Info ''This is a frontend-only preview. Backend upload is disabled.''],
                             Finished)
                        | _ \<Rightarrow> ((hp, s), shown, Raised AttributeError)))))"

subsection \<open>One run of the script\<close>

text \<open>
  The intro and the capture block both end in \<open>st.stop()\<close>, so at most one of the three
  page blocks runs.
\<close>

definition run :: "lib \<Rightarrow> world \<Rightarrow> widgets \<Rightarrow> outcome" where
  "run L w W =
     (case w of (hp, s) \<Rightarrow>
        (let s0 = init_state s
         in case page s0 of
              None \<Rightarrow> ((hp, s0), [], Raised AttributeError)
            | Some Intro \<Rightarrow> intro_page hp s0 W
            | Some Capture \<Rightarrow> capture_page L hp s0 W
            | Some Final \<Rightarrow> final_page L hp s0 W))"

text \<open>The states a session can be in: the empty session, and what any run leaves.\<close>

inductive reachable :: "lib \<Rightarrow> world \<Rightarrow> bool" for L :: lib where
  start: "reachable L ([], empty_session)"
| step: "reachable L w \<Longrightarrow> run L w W = (w', shown, ctl) \<Longrightarrow> reachable L w'"


subsection \<open>A small instance of the libraries\<close>

text \<open>
  Concrete library functions on which the model can be run: the detector reports one
  region for every grey level 255 and fails on an array without data, the rasteriser paints
  the centre pixel only, the decoder reads width, height and grey levels from the bytes,
  the encoder fails on an image without pixels.
\<close>

definition stub_lib :: lib where
  "stub_lib =
     \<lparr>gray_of = (\<lambda>p. fst (snd p)),
      detectMultiScale =
        (\<lambda>g scaleFactor minNeighbors.
           if gdata g = [] then Inl CvError
           else Inr (map (\<lambda>v. (0, 0, 1, 1)) (filter (\<lambda>v. v = 255) (gdata g)))),
      on_stroke = (\<lambda>c x y. (int x, int y) = center c),
      image_open =
        (\<lambda>b. case b of
                w # h # rest \<Rightarrow>
                  Inr \<lparr>size_w = unat w, size_h = unat h, px = map (\<lambda>v. (v, v, v)) rest\<rparr>
              | _ \<Rightarrow> Inl UnidentifiedImageError),
      save_jpeg = (\<lambda>im. if px im = [] then Inl OSError else Inr (map fst (px im))),
      json_dumps = (\<lambda>v indent. ''{}'')\<rparr>"

section \<open>Properties\<close>

subsection \<open>The store\<close>

lemma deref_append_old: "a < length hp \<Longrightarrow> deref (hp @ xs) a = deref hp a"
  by (simp add: deref_def nth_append)

lemma deref_append_new: "deref (hp @ [ob]) (length hp) = Some ob"
  by (simp add: deref_def)

lemma deref_Some_lt: "deref hp a = Some ob \<Longrightarrow> a < length hp"
  by (simp add: deref_def split: if_splits)

lemma np_array_Image:
  "deref hp a = Some (Image im) \<Longrightarrow>
   np_array hp a =
     (Inr (length hp), hp @ [Array \<lparr>shape_h = size_h im, shape_w = size_w im, data = px im\<rparr>])"
  by (simp add: np_array_def alloc_def)

lemma cvtColor_gray:
  "deref hp a = Some (Array arr) \<Longrightarrow> shape_h arr \<noteq> 0 \<Longrightarrow> shape_w arr \<noteq> 0 \<Longrightarrow>
   cvtColor L hp a COLOR_RGB2GRAY =
     (Inr (length hp),
      hp @ [GrayArray \<lparr>gshape_h = shape_h arr, gshape_w = shape_w arr,
                       gdata = map (gray_of L) (data arr)\<rparr>])"
  by (simp add: cvtColor_def alloc_def)

lemma cvtColor_empty:
  "deref hp a = Some (Array arr) \<Longrightarrow> shape_h arr = 0 \<or> shape_w arr = 0 \<Longrightarrow>
   cvtColor L hp a code = (Inl CvError, hp)"
  by (auto simp add: cvtColor_def)

lemma cvtColor_swap:
  "deref hp a = Some (Array arr) \<Longrightarrow> shape_h arr \<noteq> 0 \<Longrightarrow> shape_w arr \<noteq> 0 \<Longrightarrow>
   code = COLOR_RGB2BGR \<or> code = COLOR_BGR2RGB \<Longrightarrow>
   cvtColor L hp a code =
     (Inr (length hp), hp @ [Array (arr\<lparr>data := map swap_rb (data arr)\<rparr>)])"
  by (auto simp add: cvtColor_def alloc_def)

lemma validate_single_face_Image:
  assumes "deref hp a = Some (Image im)"
  shows "validate_single_face L hp a =
     (if size_h im = 0 \<or> size_w im = 0
      then (Inl CvError, hp @ [Array \<lparr>shape_h = size_h im, shape_w = size_w im, data = px im\<rparr>])
      else
        (case detectMultiScale L
                \<lparr>gshape_h = size_h im, gshape_w = size_w im, gdata = map (gray_of L) (px im)\<rparr>
                1.2 5 of
           Inl e \<Rightarrow> Inl e
         | Inr faces \<Rightarrow> Inr (length faces = 1),
         hp @ [Array \<lparr>shape_h = size_h im, shape_w = size_w im, data = px im\<rparr>,
               GrayArray \<lparr>gshape_h = size_h im, gshape_w = size_w im,
                          gdata = map (gray_of L) (px im)\<rparr>]))"
proof -
  let ?A = "\<lparr>shape_h = size_h im, shape_w = size_w im, data = px im\<rparr>"
  let ?hp1 = "hp @ [Array ?A]"
  have n: "np_array hp a = (Inr (length hp), ?hp1)"
    using assms by (rule np_array_Image)
  have d1: "deref ?hp1 (length hp) = Some (Array ?A)"
    by (rule deref_append_new)
  show ?thesis
  proof (cases "size_h im = 0 \<or> size_w im = 0")
    case True
    then have "cvtColor L ?hp1 (length hp) COLOR_RGB2GRAY = (Inl CvError, ?hp1)"
      using cvtColor_empty [OF d1] by simp
    with n True show ?thesis
      by (simp add: validate_single_face_def)
  next
    case False
    let ?G = "\<lparr>gshape_h = size_h im, gshape_w = size_w im, gdata = map (gray_of L) (px im)\<rparr>"
    have c: "cvtColor L ?hp1 (length hp) COLOR_RGB2GRAY = (Inr (length ?hp1), ?hp1 @ [GrayArray ?G])"
      using cvtColor_gray [OF d1] False by simp
    have d2: "deref (?hp1 @ [GrayArray ?G]) (length ?hp1) = Some (GrayArray ?G)"
      by (rule deref_append_new)
    show ?thesis
      using n c d2 False
      by (simp add: validate_single_face_def split: sum.splits)
  qed
qed

text \<open>
  Claim C2. For an image of non-zero width and height, \<open>validate_single_face\<close> returns
  true exactly when the detector, called with scale factor 1.2 and minimum neighbour count
  5 on the grey-level conversion of the image, returns exactly one region; when the
  detector returns no region, or two or more, it returns false.
\<close>

theorem validate_single_face_exactly_one:
  assumes "deref hp a = Some (Image im)" and "0 < size_w im" and "0 < size_h im"
  shows "(fst (validate_single_face L hp a) = Inr True \<longleftrightarrow>
            (\<exists>faces. detectMultiScale L
                       \<lparr>gshape_h = size_h im, gshape_w = size_w im,
                        gdata = map (gray_of L) (px im)\<rparr> 1.2 5 = Inr faces \<and>
                     length faces = 1)) \<and>
         (\<forall>faces. detectMultiScale L
                     \<lparr>gshape_h = size_h im, gshape_w = size_w im,
                      gdata = map (gray_of L) (px im)\<rparr> 1.2 5 = Inr faces \<and>
                   (length faces = 0 \<or> 2 \<le> length faces) \<longrightarrow>
                   fst (validate_single_face L hp a) = Inr False)"
  using assms by (auto simp add: validate_single_face_Image split: sum.splits)

theorem validate_single_face_exactly_one_witness:
  "deref [Image \<lparr>size_w = 2, size_h = 1, px = [(0, 255, 0), (7, 7, 7)]\<rparr>] 0 =
     Some (Image \<lparr>size_w = 2, size_h = 1, px = [(0, 255, 0), (7, 7, 7)]\<rparr>) \<and>
   fst (validate_single_face stub_lib
          [Image \<lparr>size_w = 2, size_h = 1, px = [(0, 255, 0), (7, 7, 7)]\<rparr>] 0) = Inr True"
  using validate_single_face_exactly_one
    [of "[Image \<lparr>size_w = 2, size_h = 1, px = [(0, 255, 0), (7, 7, 7)]\<rparr>]" 0
        "\<lparr>size_w = 2, size_h = 1, px = [(0, 255, 0), (7, 7, 7)]\<rparr>" stub_lib]
  by (simp add: deref_def stub_lib_def)

end
